theory Spec2Isabelle
  imports Complex_Main
begin

section \<open>Walk-forward one-step-ahead forecast\<close>

text \<open>
  The forecasting cell of \<^verbatim>\<open>final_TSLA.ipynb\<close>:
  \<^verbatim>\<open>
  history = [x for x in train_arima]
  predictions = list()
  originals = list()
  error_list = list()
  for t in range(len(test_arima)):
      model = ARIMA(history, order=(1, 1, 1))
      model_fit = model.fit(disp=0)
      output = model_fit.forecast()
      pred_value = output[0]
      original_value = test_arima[t]
      history.append(original_value)
      pred_value = np.exp(pred_value)
      original_value = np.exp(original_value)
      error = ((abs(pred_value - original_value)) / original_value) * 100
      error_list.append(error)
      predictions.append(float(pred_value))
      originals.append(float(original_value))
  \<close>
  The four lists are notebook globals, so they are the state of the loop. Fitting and
  forecasting belong to statsmodels: they enter as a parameter \<open>arima\<close>, a function of
  the history alone, whose result is \<open>Inr\<close> the point forecast \<open>output[0]\<close> or \<open>Inl\<close> the
  exception that \<open>ARIMA(...)\<close>, \<open>fit\<close> or \<open>forecast\<close> raised. Values are the finite
  floats of a log-price series, read as real numbers (no rounding, no overflow).
\<close>

record wf_state =
  history :: "real list"
  predictions :: "real list"
  originals :: "real list"
  error_list :: "real list"

definition init_state :: "real list \<Rightarrow> wf_state" where
  "init_state train_arima =
     \<lparr>history = train_arima, predictions = [], originals = [], error_list = []\<rparr>"

text \<open>The body of one iteration after the forecast \<open>output[0]\<close> has been obtained.\<close>

definition after_forecast :: "real \<Rightarrow> real \<Rightarrow> wf_state \<Rightarrow> wf_state" where
  "after_forecast output0 test_t st =
     (let pred_value = output0;
          original_value = test_t;
          history' = history st @ [original_value];
          pred_value = exp pred_value;
          original_value = exp original_value;
          error = (\<bar>pred_value - original_value\<bar> / original_value) * 100
      in \<lparr>history = history',
          predictions = predictions st @ [pred_value],
          originals = originals st @ [original_value],
          error_list = error_list st @ [error]\<rparr>)"

text \<open>
  The loop over \<open>range(len(test_arima))\<close>. An exception raised by the fit leaves the
  cell at once: the result carries it together with the lists as they are then.
\<close>

fun walk_forward_loop ::
  "(real list \<Rightarrow> 'e + real) \<Rightarrow> real list \<Rightarrow> nat list \<Rightarrow> wf_state \<Rightarrow> 'e option \<times> wf_state"
where
  "walk_forward_loop arima test_arima [] st = (None, st)"
| "walk_forward_loop arima test_arima (t # ts) st =
     (case arima (history st) of
        Inl e \<Rightarrow> (Some e, st)
      | Inr output0 \<Rightarrow>
          walk_forward_loop arima test_arima ts (after_forecast output0 (test_arima ! t) st))"

definition walk_forward ::
  "(real list \<Rightarrow> 'e + real) \<Rightarrow> real list \<Rightarrow> real list \<Rightarrow> 'e option \<times> wf_state"
where
  "walk_forward arima train_arima test_arima =
     walk_forward_loop arima test_arima [0..<length test_arima] (init_state train_arima)"

text \<open>
  The state in which the model is fit for step \<open>t\<close>: the loop run over the indices
  before \<open>t\<close>; the whole run continues from it (\<open>walk_forward_split\<close>).
\<close>

definition at_step ::
  "(real list \<Rightarrow> 'e + real) \<Rightarrow> real list \<Rightarrow> real list \<Rightarrow> nat \<Rightarrow> 'e option \<times> wf_state"
where
  "at_step arima train_arima test_arima t =
     walk_forward_loop arima test_arima [0..<t] (init_state train_arima)"

text \<open>
  The summary line of the next cell:
  \<^verbatim>\<open>sum(error_list)/float(len(error_list))\<close>.
  Python raises \<open>ZeroDivisionError\<close> when the list is empty (the spec's
  \<open>EmptyInputError\<close>: a mean over zero elements).
\<close>

datatype py_error = ZeroDivisionError | ValueError | IndexError

definition mean_error :: "real list \<Rightarrow> py_error + real" where
  "mean_error errors =
     (if length errors = 0 then Inl ZeroDivisionError
      else Inr (sum_list errors / real (length errors)))"

text \<open>
  Modelled from the spec: \<open>mean_squared_error\<close> of scikit-learn, which the notebook calls
  as \<^verbatim>\<open>mean_squared_error(y_true, y_pred)\<close> and whose code is not part of the
  repository. The spec's ErrorAccumulator returns the mean squared error of the
  (predicted, actual) pairs and fails on an empty sequence; the library reports an
  empty or ill-matched input as \<open>ValueError\<close>.
\<close>

definition mean_squared_error :: "real list \<Rightarrow> real list \<Rightarrow> py_error + real" where
  "mean_squared_error y_true y_pred =
     (if length y_true \<noteq> length y_pred \<or> length y_true = 0 then Inl ValueError
      else Inr (sum_list (map (\<lambda>(a, p). (a - p)\<^sup>2) (zip y_true y_pred)) / real (length y_true)))"

section \<open>Stationarity test\<close>

text \<open>
  \<^verbatim>\<open>
  def test_stationarity(x):
      ...rolling mean and standard deviation, plotted...
      result=adfuller(x)
      print('ADF Stastistic: %f'%result[0])
      print('p-value: %f'%result[1])
      pvalue=result[1]
      for key,value in result[4].items():
           if result[0]>value:
              print("The graph is non stationary")
              break
           else:
              print("The graph is stationary")
              break;
      print('Critical values:')
      for key,value in result[4].items():
          print('\t%s: %.3f ' % (key, value))
  \<close>
  \<open>adfuller\<close> belongs to statsmodels and enters as a parameter; of its result tuple the
  function reads the statistic \<open>result[0]\<close>, the p-value \<open>result[1]\<close> and the
  dictionary of critical values \<open>result[4]\<close>, kept as an association list in the
  dictionary's iteration order. The model keeps the verdict lines that the function
  prints; the plot and the lines that only format numbers are left out.
\<close>

record adf_result =
  adf_statistic :: real
  adf_pvalue :: real
  adf_critical_values :: "(string \<times> real) list"

text \<open>The first \<open>for\<close> loop: both branches end in \<open>break\<close>.\<close>

fun verdict_loop :: "real \<Rightarrow> (string \<times> real) list \<Rightarrow> string list" where
  "verdict_loop result0 [] = []"
| "verdict_loop result0 ((key, value) # rest) =
     (if result0 > value then [''The graph is non stationary'']
      else [''The graph is stationary''])"

definition stationarity_verdict :: "adf_result \<Rightarrow> string list" where
  "stationarity_verdict result =
     (let pvalue = adf_pvalue result
      in verdict_loop (adf_statistic result) (adf_critical_values result))"

definition test_stationarity :: "('x \<Rightarrow> adf_result) \<Rightarrow> 'x \<Rightarrow> string list" where
  "test_stationarity adfuller x = stationarity_verdict (adfuller x)"

section \<open>Series transforms\<close>

text \<open>
  \<^verbatim>\<open>
  ts_log = np.log(ts)
  ts_log_diff = (ts_log - ts_log.shift())*100
  ts_log_diff.dropna(inplace=True)
  \<close>
  A float64 entry is a real number or one of the three special values; arithmetic on
  the finite values is exact here (no rounding, no overflow). \<open>np.log\<close> raises nothing:
  it returns \<open>-inf\<close> at zero and \<open>nan\<close> below zero, and the notebook has switched the
  warnings off (\<^verbatim>\<open>warnings.simplefilter('ignore')\<close>).
\<close>

datatype npfloat = Finite real | PosInf | NegInf | NaN

fun np_log :: "npfloat \<Rightarrow> npfloat" where
  "np_log (Finite x) = (if 0 < x then Finite (ln x) else if x = 0 then NegInf else NaN)"
| "np_log PosInf = PosInf"
| "np_log NegInf = NaN"
| "np_log NaN = NaN"

fun np_sub :: "npfloat \<Rightarrow> npfloat \<Rightarrow> npfloat" where
  "np_sub (Finite a) (Finite b) = Finite (a - b)"
| "np_sub NaN _ = NaN"
| "np_sub _ NaN = NaN"
| "np_sub PosInf PosInf = NaN"
| "np_sub NegInf NegInf = NaN"
| "np_sub PosInf _ = PosInf"
| "np_sub NegInf _ = NegInf"
| "np_sub (Finite a) PosInf = NegInf"
| "np_sub (Finite a) NegInf = PosInf"

text \<open>Multiplication of a float by a finite constant (\<open>* 100\<close> in the source).\<close>

fun np_scale :: "npfloat \<Rightarrow> real \<Rightarrow> npfloat" where
  "np_scale (Finite a) c = Finite (a * c)"
| "np_scale NaN c = NaN"
| "np_scale PosInf c = (if 0 < c then PosInf else if c < 0 then NegInf else NaN)"
| "np_scale NegInf c = (if 0 < c then NegInf else if c < 0 then PosInf else NaN)"

text \<open>
  \<open>Series.shift(periods)\<close> for \<open>periods \<ge> 0\<close> (the source leaves the default 1):
  the values move down, the head is filled with \<open>nan\<close>, the length stays.
\<close>

definition shift :: "nat \<Rightarrow> npfloat list \<Rightarrow> npfloat list" where
  "shift periods xs =
     replicate (min periods (length xs)) NaN @ take (length xs - periods) xs"

definition dropna :: "npfloat list \<Rightarrow> npfloat list" where
  "dropna xs = filter (\<lambda>v. v \<noteq> NaN) xs"

definition ts_log :: "npfloat list \<Rightarrow> npfloat list" where
  "ts_log ts = map np_log ts"

text \<open>
  The difference of the log series at a lag, scaled by 100, with the undefined head
  dropped. Both series of the subtraction carry the same index, so it is elementwise.
\<close>

definition log_difference :: "nat \<Rightarrow> npfloat list \<Rightarrow> npfloat list" where
  "log_difference periods ts =
     (let logs = ts_log ts;
          diffs = map (\<lambda>(a, b). np_scale (np_sub a b) 100) (zip logs (shift periods logs))
      in dropna diffs)"

definition ts_log_diff :: "npfloat list \<Rightarrow> npfloat list" where
  "ts_log_diff ts = log_difference 1 ts"

text \<open>
  Modelled from the spec: the inverse transforms of the SeriesTransformer. The notebook
  never inverts the difference or the scaling (it only inverts the logarithm, by
  \<open>np.exp\<close> in the forecasting loop), so they follow the spec's words: \<open>scale\<close> is a
  linear scaling, undone by dividing by the factor; \<open>difference\<close> with lag \<open>k\<close> is
  undone from the \<open>k\<close> dropped anchor values, each new value being the value \<open>k\<close>
  places before it plus the difference.
\<close>

definition invert_scale :: "real \<Rightarrow> real list \<Rightarrow> real list" where
  "invert_scale factor ds = map (\<lambda>d. d / factor) ds"

fun invert_difference :: "real list \<Rightarrow> real list \<Rightarrow> real list" where
  "invert_difference anchors [] = []"
| "invert_difference [] (d # ds) = []"
| "invert_difference (a # anchors) (d # ds) =
     (a + d) # invert_difference (anchors @ [a + d]) ds"

definition invert_log :: "real list \<Rightarrow> real list" where
  "invert_log ys = map exp ys"

section \<open>Kalman filter\<close>

text \<open>
  \<^verbatim>\<open>
  kf = KalmanFilter(transition_matrices = [1],
                    observation_matrices = [1],
                    initial_state_mean = df['Close'].values[0],
                    initial_state_covariance = 1,
                    observation_covariance=1,
                    transition_covariance=.01)
  state_means,_ = kf.filter(df[['Close']].values)
  state_means = state_means.flatten()
  \<close>
\<close>

record kalman_params =
  transition_matrices :: real
  observation_matrices :: real
  transition_covariance :: real
  observation_covariance :: real
  initial_state_mean :: real
  initial_state_covariance :: real

record filter_state =
  state_mean :: real
  state_covariance :: real

text \<open>
  Modelled from the spec: the recursion of \<open>KalmanFilter.filter\<close>, which is pykalman's
  and not part of the repository. Per observation \<open>z\<close> the spec gives
  predict \<open>\<mu>_pred = F\<cdot>\<mu>\<close>, \<open>P_pred = F\<^sup>2\<cdot>P + Q\<close> and update \<open>y = z - H\<cdot>\<mu>_pred\<close>,
  \<open>S = H\<^sup>2\<cdot>P_pred + R\<close>, \<open>K = H\<cdot>P_pred / S\<close>, \<open>\<mu> = \<mu>_pred + K\<cdot>y\<close>,
  \<open>P = (1 - K\<cdot>H)\<cdot>P_pred\<close>, the new \<open>(\<mu>, P)\<close> being appended to the trajectory.
  The spec is silent on \<open>S = 0\<close>; the gain is 0 there, which is what inverting \<open>S\<close> by
  a pseudo-inverse gives.
\<close>

definition kalman_cycle :: "kalman_params \<Rightarrow> filter_state \<Rightarrow> real \<Rightarrow> filter_state" where
  "kalman_cycle par st z =
     (let F = transition_matrices par; H = observation_matrices par;
          Q = transition_covariance par; R = observation_covariance par;
          mu_pred = F * state_mean st;
          P_pred = F\<^sup>2 * state_covariance st + Q;
          y = z - H * mu_pred;
          S = H\<^sup>2 * P_pred + R;
          K = (if S = 0 then 0 else H * P_pred / S)
      in \<lparr>state_mean = mu_pred + K * y, state_covariance = (1 - K * H) * P_pred\<rparr>)"

fun filter_from :: "kalman_params \<Rightarrow> filter_state \<Rightarrow> real list \<Rightarrow> filter_state list" where
  "filter_from par st [] = []"
| "filter_from par st (z # zs) =
     (let st' = kalman_cycle par st z in st' # filter_from par st' zs)"

definition kalman_filter :: "kalman_params \<Rightarrow> real list \<Rightarrow> filter_state list" where
  "kalman_filter par observations =
     filter_from par
       \<lparr>state_mean = initial_state_mean par, state_covariance = initial_state_covariance par\<rparr>
       observations"

text \<open>
  The two notebook cells on the \<open>Close\<close> column: \<open>values[0]\<close> of an empty column raises
  \<open>IndexError\<close>.
\<close>

definition kf :: "real list \<Rightarrow> py_error + kalman_params" where
  "kf close =
     (case close of
        [] \<Rightarrow> Inl IndexError
      | z0 # _ \<Rightarrow>
          Inr \<lparr>transition_matrices = 1, observation_matrices = 1,
               transition_covariance = 0.01, observation_covariance = 1,
               initial_state_mean = z0, initial_state_covariance = 1\<rparr>)"

definition state_means :: "real list \<Rightarrow> py_error + real list" where
  "state_means close =
     (case kf close of
        Inl e \<Rightarrow> Inl e
      | Inr par \<Rightarrow> Inr (map state_mean (kalman_filter par close)))"

section \<open>Basic facts about the loop\<close>

lemma walk_forward_loop_append:
  "walk_forward_loop arima test (is @ js) st =
     (case walk_forward_loop arima test is st of
        (Some e, st') \<Rightarrow> (Some e, st')
      | (None, st') \<Rightarrow> walk_forward_loop arima test js st')"
  by (induction "is" arbitrary: st) (auto split: sum.splits)

lemma walk_forward_split:
  assumes "t \<le> length test"
  shows "walk_forward arima train test =
     (case at_step arima train test t of
        (Some e, st') \<Rightarrow> (Some e, st')
      | (None, st') \<Rightarrow> walk_forward_loop arima test [t..<length test] st')"
proof -
  have "[0..<length test] = [0..<t] @ [t..<length test]"
    using assms by (metis le0 upt_add_eq_append le_add_diff_inverse)
  then show ?thesis
    by (simp add: walk_forward_def at_step_def walk_forward_loop_append)
qed

lemma at_step_0: "at_step arima train test 0 = (None, init_state train)"
  by (simp add: at_step_def)

lemma at_step_Suc:
  "at_step arima train test (Suc t) =
     (case at_step arima train test t of
        (Some e, st) \<Rightarrow> (Some e, st)
      | (None, st) \<Rightarrow>
          (case arima (history st) of
             Inl e \<Rightarrow> (Some e, st)
           | Inr output0 \<Rightarrow> (None, after_forecast output0 (test ! t) st)))"
  by (simp add: at_step_def walk_forward_loop_append split: prod.splits option.splits sum.splits)

lemma walk_forward_at_step: "walk_forward arima train test = at_step arima train test (length test)"
  by (simp add: walk_forward_def at_step_def)

lemma walk_forward_loop_cong:
  "(\<And>k. k \<in> set ks \<Longrightarrow> test' ! k = test ! k) \<Longrightarrow>
   walk_forward_loop arima test' ks st = walk_forward_loop arima test ks st"
  by (induction ks arbitrary: st) (auto split: sum.splits)

text \<open>
  The state after the loop has run over the indices before \<open>t\<close>, in closed form: \<open>m\<close> is
  the number of steps completed, \<open>t\<close> unless a fit raised.
\<close>

lemma at_step_closed:
  assumes "t \<le> length test"
  shows "\<exists>m\<le>t.
     history (snd (at_step arima train test t)) = train @ take m test \<and>
     predictions (snd (at_step arima train test t)) =
       map (\<lambda>k. exp (projr (arima (train @ take k test)))) [0..<m] \<and>
     originals (snd (at_step arima train test t)) = map (\<lambda>k. exp (test ! k)) [0..<m] \<and>
     error_list (snd (at_step arima train test t)) =
       map (\<lambda>k. \<bar>exp (projr (arima (train @ take k test))) - exp (test ! k)\<bar> / exp (test ! k) * 100) [0..<m] \<and>
     (\<forall>k<m. \<not> isl (arima (train @ take k test))) \<and>
     (case fst (at_step arima train test t) of
        None \<Rightarrow> m = t
      | Some e \<Rightarrow> m < t \<and> arima (train @ take m test) = Inl e)"
  using assms
proof (induction t)
  case 0
  show ?case by (simp add: at_step_0 init_state_def)
next
  case (Suc t)
  then obtain m where m: "m \<le> t"
     "history (snd (at_step arima train test t)) = train @ take m test"
     "predictions (snd (at_step arima train test t)) =
       map (\<lambda>k. exp (projr (arima (train @ take k test)))) [0..<m]"
     "originals (snd (at_step arima train test t)) = map (\<lambda>k. exp (test ! k)) [0..<m]"
     "error_list (snd (at_step arima train test t)) =
       map (\<lambda>k. \<bar>exp (projr (arima (train @ take k test))) - exp (test ! k)\<bar> / exp (test ! k) * 100) [0..<m]"
     "\<forall>k<m. \<not> isl (arima (train @ take k test))"
     "case fst (at_step arima train test t) of
        None \<Rightarrow> m = t
      | Some e \<Rightarrow> m < t \<and> arima (train @ take m test) = Inl e"
    by auto
  obtain r st where rst: "at_step arima train test t = (r, st)" by (cases "at_step arima train test t")
  show ?case
  proof (cases r)
    case (Some e)
    with rst m show ?thesis
      by (intro exI[of _ m]) (simp add: at_step_Suc)
  next
    case None
    with rst m have mt: "m = t" by simp
    show ?thesis
    proof (cases "arima (history st)")
      case (Inl e)
      with None rst m mt show ?thesis
        by (intro exI[of _ t]) (simp add: at_step_Suc)
    next
      case (Inr p)
      have tk: "take (Suc t) test = take t test @ [test ! t]"
        using Suc.prems by (simp add: take_Suc_conv_app_nth)
      from Inr None rst m mt tk show ?thesis
        by (intro exI[of _ "Suc t"]) (auto simp add: at_step_Suc after_forecast_def Let_def less_Suc_eq)
    qed
  qed
qed


lemma walk_forward_loop_predictions:
  "\<exists>ps. predictions (snd (walk_forward_loop arima test ks st)) = predictions st @ ps"
proof (induction ks arbitrary: st)
  case Nil
  show ?case by simp
next
  case (Cons k ks)
  show ?case
  proof (cases "arima (history st)")
    case (Inl e)
    then show ?thesis by simp
  next
    case (Inr p)
    from Cons.IH[of "after_forecast p (test ! k) st"] Inr show ?thesis
      by (auto simp: after_forecast_def Let_def)
  qed
qed

lemma not_isl_projr: "\<not> isl x \<Longrightarrow> x = Inr (projr x)"
  by (cases x) auto

section \<open>The claims about the walk-forward loop\<close>

text \<open>
  C2. When the fits of the steps before \<open>t\<close> have returned, the loop reaches step \<open>t\<close>
  and the history on which the model of step \<open>t\<close> is fit is the training values followed
  by the test values of the steps \<open>0..t-1\<close>, of length \<open>len(train) + t\<close>; one prediction,
  one original and one error have been recorded per completed step; the step appends
  the single value \<open>test[t]\<close>; and the state after \<open>len(test)\<close> steps is the result of the
  run.
\<close>

theorem history_invariant:
  assumes "t \<le> length test"
    and "\<forall>k<t. \<not> isl (arima (train @ take k test))"
  shows "fst (at_step arima train test t) = None \<and>
    history (snd (at_step arima train test t)) = train @ take t test \<and>
    length (history (snd (at_step arima train test t))) = length train + t \<and>
    length (predictions (snd (at_step arima train test t))) = t \<and>
    length (originals (snd (at_step arima train test t))) = t \<and>
    length (error_list (snd (at_step arima train test t))) = t \<and>
    walk_forward arima train test =
      walk_forward_loop arima test [t..<length test] (snd (at_step arima train test t)) \<and>
    (t < length test \<and> \<not> isl (arima (train @ take t test)) \<longrightarrow>
       history (snd (at_step arima train test (Suc t))) =
         history (snd (at_step arima train test t)) @ [test ! t]) \<and>
    at_step arima train test (length test) = walk_forward arima train test"
proof -
  from at_step_closed[OF assms(1), of arima train] obtain m where m: "m \<le> t"
    "history (snd (at_step arima train test t)) = train @ take m test"
    "predictions (snd (at_step arima train test t)) =
       map (\<lambda>k. exp (projr (arima (train @ take k test)))) [0..<m]"
    "originals (snd (at_step arima train test t)) = map (\<lambda>k. exp (test ! k)) [0..<m]"
    "error_list (snd (at_step arima train test t)) =
       map (\<lambda>k. \<bar>exp (projr (arima (train @ take k test))) - exp (test ! k)\<bar> / exp (test ! k) * 100) [0..<m]"
    "case fst (at_step arima train test t) of
        None \<Rightarrow> m = t
      | Some e \<Rightarrow> m < t \<and> arima (train @ take m test) = Inl e"
    by blast
  have none: "fst (at_step arima train test t) = None"
  proof (cases "fst (at_step arima train test t)")
    case None
    then show ?thesis .
  next
    case (Some e)
    with m(6) have "m < t" "arima (train @ take m test) = Inl e" by simp_all
    with assms(2) show ?thesis by auto
  qed
  with m(6) have mt: "m = t" by simp
  have hist: "history (snd (at_step arima train test t)) = train @ take t test"
    using m(2) mt by simp
  have cont: "walk_forward arima train test =
      walk_forward_loop arima test [t..<length test] (snd (at_step arima train test t))"
    using walk_forward_split[OF assms(1), of arima train] none
    by (simp split: prod.splits option.splits)
  have grow: "history (snd (at_step arima train test (Suc t))) =
         history (snd (at_step arima train test t)) @ [test ! t]"
    if "t < length test" "\<not> isl (arima (train @ take t test))"
  proof -
    obtain st where st: "at_step arima train test t = (None, st)"
      using none by (cases "at_step arima train test t") auto
    from that(2) hist st obtain p where "arima (history st) = Inr p"
      by (cases "arima (history st)") auto
    with st show ?thesis
      by (simp add: at_step_Suc after_forecast_def Let_def)
  qed
  show ?thesis
    using none hist assms(1) m(3,4,5) mt cont grow
    by (simp add: walk_forward_at_step)
qed

theorem history_invariant_witness:
  "history (snd (at_step (\<lambda>h. Inr (last h) :: unit + real) [0] [1, 2] 2)) = [0, 1, 2] \<and>
   length (predictions (snd (at_step (\<lambda>h. Inr (last h) :: unit + real) [0] [1, 2] 2))) = 2"
  using history_invariant[of 2 "[1, 2]" "\<lambda>h. Inr (last h) :: unit + real" "[0]"]
  by simp

text \<open>
  C1. No lookahead: replacing the test entries at the indices \<open>\<ge> t\<close> (same length, same
  first \<open>t\<close> entries) changes neither the state in which the model of step \<open>t\<close> is fit
  nor the forecasts of the steps \<open>0..t\<close>. The forecasts are recorded in increasing step
  order: entry \<open>k\<close> of \<open>predictions\<close> is the exponential of the forecast that the model
  fit on the training values and the test values before \<open>k\<close> returned.
\<close>

theorem no_lookahead:
  assumes "length test' = length test" and "take t test' = take t test"
  shows "at_step arima train test' t = at_step arima train test t \<and>
    take (Suc t) (predictions (snd (walk_forward arima train test'))) =
      take (Suc t) (predictions (snd (walk_forward arima train test))) \<and>
    (\<forall>k < length (predictions (snd (walk_forward arima train test))).
       k < length test \<and>
       (\<exists>output0. arima (train @ take k test) = Inr output0 \<and>
          predictions (snd (walk_forward arima train test)) ! k = exp output0))"
proof -
  have same: "at_step arima train test' t = at_step arima train test t"
  proof -
    have "test' ! k = test ! k" if "k \<in> set [0..<t]" for k
    proof -
      from that have "k < t" by simp
      then have "test' ! k = take t test' ! k" "test ! k = take t test ! k" by simp_all
      with assms(2) show ?thesis by simp
    qed
    then show ?thesis
      unfolding at_step_def by (rule walk_forward_loop_cong)
  qed
  have pref: "take (Suc t) (predictions (snd (walk_forward arima train test'))) =
      take (Suc t) (predictions (snd (walk_forward arima train test)))"
  proof (cases "t < length test")
    case False
    with assms have "test' = test" by simp
    then show ?thesis by simp
  next
    case True
    then have le: "t \<le> length test" "t \<le> length test'" using assms(1) by simp_all
    have ix: "[t..<length test] = t # [Suc t..<length test]"
      using True by (simp add: upt_conv_Cons)
    obtain r st where rst: "at_step arima train test t = (r, st)"
      by (cases "at_step arima train test t")
    show ?thesis
    proof (cases r)
      case (Some e)
      with rst same walk_forward_split[OF le(1), of arima train]
        walk_forward_split[OF le(2), of arima train]
      show ?thesis by simp
    next
      case None
      from at_step_closed[OF le(1), of arima train] rst None
      have len: "length (predictions st) = t" by auto
      show ?thesis
      proof (cases "arima (history st)")
        case (Inl e)
        with None rst same walk_forward_split[OF le(1), of arima train]
          walk_forward_split[OF le(2), of arima train] ix assms(1)
        show ?thesis by simp
      next
        case (Inr p)
        obtain ps where ps: "predictions (snd (walk_forward_loop arima test [Suc t..<length test]
            (after_forecast p (test ! t) st))) = predictions (after_forecast p (test ! t) st) @ ps"
          using walk_forward_loop_predictions by blast
        obtain ps' where ps': "predictions (snd (walk_forward_loop arima test' [Suc t..<length test]
            (after_forecast p (test' ! t) st))) = predictions (after_forecast p (test' ! t) st) @ ps'"
          using walk_forward_loop_predictions by blast
        have 1: "predictions (snd (walk_forward arima train test)) = predictions st @ [exp p] @ ps"
          using None rst Inr walk_forward_split[OF le(1), of arima train] ix ps
          by (simp add: after_forecast_def Let_def)
        have 2: "predictions (snd (walk_forward arima train test')) = predictions st @ [exp p] @ ps'"
          using None rst same Inr walk_forward_split[OF le(2), of arima train] ix ps' assms(1)
          by (simp add: after_forecast_def Let_def)
        show ?thesis using 1 2 len by simp
      qed
    qed
  qed
  have each: "k < length test \<and>
       (\<exists>output0. arima (train @ take k test) = Inr output0 \<and>
          predictions (snd (walk_forward arima train test)) ! k = exp output0)"
    if k: "k < length (predictions (snd (walk_forward arima train test)))" for k
  proof -
    from at_step_closed[OF order_refl, of test arima train] obtain m where m:
      "m \<le> length test"
      "predictions (snd (walk_forward arima train test)) =
         map (\<lambda>k. exp (projr (arima (train @ take k test)))) [0..<m]"
      "\<forall>k<m. \<not> isl (arima (train @ take k test))"
      unfolding walk_forward_at_step by blast
    from k m(2) have km: "k < m" by simp
    with m(3) have "arima (train @ take k test) = Inr (projr (arima (train @ take k test)))"
      by (simp add: not_isl_projr)
    moreover have "predictions (snd (walk_forward arima train test)) ! k =
        exp (projr (arima (train @ take k test)))"
      using km m(2) by simp
    ultimately show ?thesis using km m(1) by auto
  qed
  from same pref each show ?thesis by blast
qed

theorem no_lookahead_witness:
  "take 2 (predictions (snd (walk_forward (\<lambda>h. Inr (last h) :: unit + real) [0] [1, 2, 7]))) =
   take 2 (predictions (snd (walk_forward (\<lambda>h. Inr (last h) :: unit + real) [0] [1, 5, 9]))) \<and>
   take 2 (predictions (snd (walk_forward (\<lambda>h. Inr (last h) :: unit + real) [0] [1, 5, 9]))) = [1, exp 1]"
  using no_lookahead[of "[1, 2, 7]" "[1, 5, 9]" 1 "\<lambda>h. Inr (last h) :: unit + real" "[0]"]
  by (simp add: walk_forward_def init_state_def after_forecast_def Let_def upt_rec)

text \<open>
  C6. Every step that the loop records carries the forecast and the true value on the
  price scale (the exponentials of the model's forecast and of \<open>test[k]\<close>), and its error
  is \<open>|predicted - actual| / actual * 100\<close>, which is not negative.
\<close>

theorem per_step_error:
  assumes "k < length (error_list (snd (walk_forward arima train test)))"
  shows "k < length test \<and>
    length (predictions (snd (walk_forward arima train test))) =
      length (error_list (snd (walk_forward arima train test))) \<and>
    length (originals (snd (walk_forward arima train test))) =
      length (error_list (snd (walk_forward arima train test))) \<and>
    (\<exists>output0. arima (train @ take k test) = Inr output0 \<and>
       predictions (snd (walk_forward arima train test)) ! k = exp output0) \<and>
    originals (snd (walk_forward arima train test)) ! k = exp (test ! k) \<and>
    error_list (snd (walk_forward arima train test)) ! k =
      \<bar>predictions (snd (walk_forward arima train test)) ! k -
        originals (snd (walk_forward arima train test)) ! k\<bar> /
      originals (snd (walk_forward arima train test)) ! k * 100 \<and>
    0 \<le> error_list (snd (walk_forward arima train test)) ! k"
proof -
  from at_step_closed[OF order_refl, of test arima train] obtain m where m:
    "m \<le> length test"
    "predictions (snd (walk_forward arima train test)) =
       map (\<lambda>k. exp (projr (arima (train @ take k test)))) [0..<m]"
    "originals (snd (walk_forward arima train test)) = map (\<lambda>k. exp (test ! k)) [0..<m]"
    "error_list (snd (walk_forward arima train test)) =
       map (\<lambda>k. \<bar>exp (projr (arima (train @ take k test))) - exp (test ! k)\<bar> / exp (test ! k) * 100) [0..<m]"
    "\<forall>k<m. \<not> isl (arima (train @ take k test))"
    unfolding walk_forward_at_step by blast
  from assms m(4) have km: "k < m" by simp
  with m(5) have fc: "arima (train @ take k test) = Inr (projr (arima (train @ take k test)))"
    by (simp add: not_isl_projr)
  have p: "predictions (snd (walk_forward arima train test)) ! k =
      exp (projr (arima (train @ take k test)))"
    using km m(2) by simp
  have ex: "\<exists>output0. arima (train @ take k test) = Inr output0 \<and>
       predictions (snd (walk_forward arima train test)) ! k = exp output0"
    using fc p by blast
  have orig: "originals (snd (walk_forward arima train test)) ! k = exp (test ! k)"
    using km m(3) by simp
  have err: "error_list (snd (walk_forward arima train test)) ! k =
      \<bar>exp (projr (arima (train @ take k test))) - exp (test ! k)\<bar> / exp (test ! k) * 100"
    using km m(4) by simp
  have nonneg: "0 \<le> \<bar>exp (projr (arima (train @ take k test))) - exp (test ! k)\<bar> / exp (test ! k) * 100"
    by simp
  have lens: "length (predictions (snd (walk_forward arima train test))) = m"
    "length (originals (snd (walk_forward arima train test))) = m"
    "length (error_list (snd (walk_forward arima train test))) = m"
    using m(2,3,4) by simp_all
  from km m(1) have "k < length test" by simp
  with lens ex orig err nonneg p show ?thesis by simp
qed

theorem per_step_error_witness:
  "error_list (snd (walk_forward (\<lambda>h. Inr (last h) :: unit + real) [0] [1, 2])) ! 1 =
     \<bar>predictions (snd (walk_forward (\<lambda>h. Inr (last h) :: unit + real) [0] [1, 2])) ! 1 -
       originals (snd (walk_forward (\<lambda>h. Inr (last h) :: unit + real) [0] [1, 2])) ! 1\<bar> /
     originals (snd (walk_forward (\<lambda>h. Inr (last h) :: unit + real) [0] [1, 2])) ! 1 * 100 \<and>
   0 \<le> error_list (snd (walk_forward (\<lambda>h. Inr (last h) :: unit + real) [0] [1, 2])) ! 1 \<and>
   length (error_list (snd (walk_forward (\<lambda>h. Inr (last h) :: unit + real) [0] [1, 2]))) = 2"
  using per_step_error[of 1 "\<lambda>h. Inr (last h) :: unit + real" "[0]" "[1, 2]"]
  by (simp add: walk_forward_def init_state_def after_forecast_def Let_def upt_rec)

text \<open>
  C7, as the code has it. When the fit of step \<open>t\<close> raises (the fits before it having
  returned), the run ends with that exception and the lists are those of the moment of
  the fit: the \<open>t\<close> steps recorded so far, unchanged, and the history of the training
  values and the test values before \<open>t\<close>. The value \<open>test[t]\<close> has not been appended: the
  \<open>append\<close> comes after the fit in the loop body.
\<close>

theorem fit_failure_aborts:
  assumes "t < length test"
    and "\<forall>k<t. \<not> isl (arima (train @ take k test))"
    and "arima (train @ take t test) = Inl e"
  shows "walk_forward arima train test =
    (Some e,
     \<lparr>history = train @ take t test,
      predictions = map (\<lambda>k. exp (projr (arima (train @ take k test)))) [0..<t],
      originals = map (\<lambda>k. exp (test ! k)) [0..<t],
      error_list = map (\<lambda>k. \<bar>exp (projr (arima (train @ take k test))) - exp (test ! k)\<bar>
                                / exp (test ! k) * 100) [0..<t]\<rparr>)"
proof -
  from assms(1) have le: "t \<le> length test" by simp
  from at_step_closed[OF le, of arima train] obtain m where m: "m \<le> t"
    "history (snd (at_step arima train test t)) = train @ take m test"
    "predictions (snd (at_step arima train test t)) =
       map (\<lambda>k. exp (projr (arima (train @ take k test)))) [0..<m]"
    "originals (snd (at_step arima train test t)) = map (\<lambda>k. exp (test ! k)) [0..<m]"
    "error_list (snd (at_step arima train test t)) =
       map (\<lambda>k. \<bar>exp (projr (arima (train @ take k test))) - exp (test ! k)\<bar> / exp (test ! k) * 100) [0..<m]"
    "case fst (at_step arima train test t) of
        None \<Rightarrow> m = t
      | Some e \<Rightarrow> m < t \<and> arima (train @ take m test) = Inl e"
    by blast
  have none: "fst (at_step arima train test t) = None"
  proof (cases "fst (at_step arima train test t)")
    case None
    then show ?thesis .
  next
    case (Some e')
    with m(6) have "m < t" "arima (train @ take m test) = Inl e'" by simp_all
    with assms(2) show ?thesis by auto
  qed
  with m(6) have mt: "m = t" by simp
  obtain st where st: "at_step arima train test t = (None, st)"
    using none by (cases "at_step arima train test t") auto
  have ix: "[t..<length test] = t # [Suc t..<length test]"
    using assms(1) by (simp add: upt_conv_Cons)
  have fail: "arima (history st) = Inl e"
    using m(2) mt st assms(3) by simp
  have "walk_forward arima train test = (Some e, st)"
    using walk_forward_split[OF le, of arima train] st ix fail by simp
  moreover have "st = \<lparr>history = train @ take t test,
      predictions = map (\<lambda>k. exp (projr (arima (train @ take k test)))) [0..<t],
      originals = map (\<lambda>k. exp (test ! k)) [0..<t],
      error_list = map (\<lambda>k. \<bar>exp (projr (arima (train @ take k test))) - exp (test ! k)\<bar>
                                / exp (test ! k) * 100) [0..<t]\<rparr>"
    using m(2,3,4,5) mt st by simp
  ultimately show ?thesis by simp
qed

theorem fit_failure_aborts_witness:
  "walk_forward (\<lambda>h. if length h = 2 then Inl () else Inr 0) [0] [1, 2, 3] =
    (Some (),
     \<lparr>history = [0, 1], predictions = [1], originals = [exp 1],
      error_list = [\<bar>1 - exp 1\<bar> / exp 1 * 100]\<rparr>)"
  using fit_failure_aborts[of 1 "[1, 2, 3]" "\<lambda>h. if length h = 2 then Inl () else Inr 0" "[0]" "()"]
  by (simp add: upt_rec)

text \<open>
  C7 as the spec words it fails: here the fit of step 1 raises, and the history ends as
  \<open>[0, 1]\<close>, without \<open>test[1] = 2\<close>.
\<close>

theorem reveal_on_failure_counterexample:
  "fst (walk_forward (\<lambda>h. if length h = 2 then Inl () else Inr 0) [0] [1, 2, 3]) = Some () \<and>
   history (snd (walk_forward (\<lambda>h. if length h = 2 then Inl () else Inr 0) [0] [1, 2, 3])) = [0, 1] \<and>
   history (snd (walk_forward (\<lambda>h. if length h = 2 then Inl () else Inr 0) [0] [1, 2, 3])) \<noteq> [0, 1, 2]"
  by (simp add: walk_forward_def init_state_def after_forecast_def Let_def upt_rec)

section \<open>Error summary\<close>

lemma walk_forward_error_list:
  "error_list (snd (walk_forward arima train test)) =
     map (\<lambda>(p, a). \<bar>p - a\<bar> / a * 100)
       (zip (predictions (snd (walk_forward arima train test)))
            (originals (snd (walk_forward arima train test))))"
proof -
  from at_step_closed[OF order_refl, of test arima train] obtain m where m:
    "predictions (snd (walk_forward arima train test)) =
       map (\<lambda>k. exp (projr (arima (train @ take k test)))) [0..<m]"
    "originals (snd (walk_forward arima train test)) = map (\<lambda>k. exp (test ! k)) [0..<m]"
    "error_list (snd (walk_forward arima train test)) =
       map (\<lambda>k. \<bar>exp (projr (arima (train @ take k test))) - exp (test ! k)\<bar> / exp (test ! k) * 100) [0..<m]"
    unfolding walk_forward_at_step by blast
  show ?thesis
    unfolding m by (simp add: zip_map_map zip_same_conv_map)
qed

text \<open>
  C9. The mean error is a function of the list of errors alone. On an empty list it
  fails (\<open>ZeroDivisionError\<close>, the spec's \<open>EmptyInputError\<close>); on a non-empty list of pairs
  it is the arithmetic mean of the pairs' percentage errors, and the list that the loop
  hands over holds exactly the percentage errors of its (predicted, actual) pairs. The
  mean squared error fails on an empty input and is the mean of the squared
  differences otherwise.
\<close>

theorem error_summary:
  "mean_error [] = Inl ZeroDivisionError \<and>
   (pairs \<noteq> [] \<longrightarrow>
      mean_error (map (\<lambda>(p, a). \<bar>p - a\<bar> / a * 100) pairs) =
        Inr ((\<Sum>(p, a)\<leftarrow>pairs. \<bar>p - a\<bar> / a * 100) / real (length pairs))) \<and>
   error_list (snd (walk_forward arima train test)) =
     map (\<lambda>(p, a). \<bar>p - a\<bar> / a * 100)
       (zip (predictions (snd (walk_forward arima train test)))
            (originals (snd (walk_forward arima train test)))) \<and>
   mean_squared_error [] [] = Inl ValueError \<and>
   (pairs \<noteq> [] \<longrightarrow>
      mean_squared_error (map snd pairs) (map fst pairs) =
        Inr ((\<Sum>(p, a)\<leftarrow>pairs. (a - p)\<^sup>2) / real (length pairs)))"
proof -
  have sq: "map (\<lambda>(a, p). (a - p)\<^sup>2) (zip (map snd pairs) (map fst pairs)) =
      map (\<lambda>(p, a). (a - p)\<^sup>2) pairs"
    by (induction pairs) auto
  have 1: "mean_error [] = Inl ZeroDivisionError"
    by (simp add: mean_error_def)
  have 2: "pairs \<noteq> [] \<longrightarrow>
      mean_error (map (\<lambda>(p, a). \<bar>p - a\<bar> / a * 100) pairs) =
        Inr ((\<Sum>(p, a)\<leftarrow>pairs. \<bar>p - a\<bar> / a * 100) / real (length pairs))"
    by (simp add: mean_error_def)
  have 3: "mean_squared_error [] [] = Inl ValueError"
    by (simp add: mean_squared_error_def)
  have 4: "pairs \<noteq> [] \<longrightarrow>
      mean_squared_error (map snd pairs) (map fst pairs) =
        Inr ((\<Sum>(p, a)\<leftarrow>pairs. (a - p)\<^sup>2) / real (length pairs))"
    by (simp add: mean_squared_error_def sq)
  from 1 2 3 4 walk_forward_error_list[of arima train test] show ?thesis
    by blast
qed

theorem error_summary_witness:
  "mean_error (map (\<lambda>(p, a). \<bar>p - a\<bar> / a * 100) [(3, 4), (5, 4)]) = Inr 25 \<and>
   mean_squared_error (map snd [(3, 4), (5, 4::real)]) (map fst [(3, 4), (5, 4::real)]) = Inr 1"
  using error_summary[of "[(3, 4), (5, 4)]" "\<lambda>h. Inr 0 :: unit + real" "[]" "[]"]
  by simp

section \<open>Stationarity verdict\<close>

text \<open>
  C3. The verdict that \<open>test_stationarity\<close> prints comes from comparing the statistic
  with the first critical value; the p-value is stored and never read. With the
  statistic between the 1\% and the 5\% critical values the p-value is below 0.05 and
  the function still prints the non-stationary verdict.
\<close>

theorem stationarity_verdict_ignores_pvalue:
  "test_stationarity
     (\<lambda>x. \<lparr>adf_statistic = -3, adf_pvalue = 0.03,
            adf_critical_values = [(''1%'', -3.43), (''5%'', -2.86), (''10%'', -2.57)]\<rparr>)
     [1, 2, 3 :: real] = [''The graph is non stationary''] \<and>
   adf_pvalue \<lparr>adf_statistic = -3, adf_pvalue = 0.03,
            adf_critical_values = [(''1%'', -3.43), (''5%'', -2.86), (''10%'', -2.57)]\<rparr> \<le> 0.05"
  by (simp add: test_stationarity_def stationarity_verdict_def)

section \<open>The log transform\<close>

lemma ts_log_positive:
  "\<forall>x\<in>set xs. 0 < x \<Longrightarrow> ts_log (map Finite xs) = map (\<lambda>x. Finite (ln x)) xs"
  by (simp add: ts_log_def)

text \<open>
  C8, as the code has it. \<open>np.log\<close> raises nothing: the result has one entry per input
  entry, the natural logarithm where the value is positive, \<open>-inf\<close> where it is zero and
  \<open>nan\<close> where it is negative. On a series of positive values it is the element-wise
  natural logarithm.
\<close>

theorem log_transform_total:
  "length (ts_log (map Finite xs)) = length xs \<and>
   (\<forall>i<length xs.
      ts_log (map Finite xs) ! i =
        (if 0 < xs ! i then Finite (ln (xs ! i)) else if xs ! i = 0 then NegInf else NaN)) \<and>
   ((\<forall>x\<in>set xs. 0 < x) \<longrightarrow> ts_log (map Finite xs) = map (\<lambda>x. Finite (ln x)) xs)"
  by (simp add: ts_log_def)

theorem log_transform_total_witness:
  "ts_log (map Finite [1, exp 2]) = [Finite 0, Finite 2]"
  using log_transform_total[of "[1, exp 2]"]
  by simp

text \<open>
  C8 as the spec words it fails: a series with a zero and a negative value is
  transformed without any error, into \<open>-inf\<close> and \<open>nan\<close>.
\<close>

theorem log_nonpositive_counterexample:
  "ts_log [Finite 1, Finite 0, Finite (- 1)] = [Finite 0, NegInf, NaN]"
  by (simp add: ts_log_def)

section \<open>The round trip of the transforms\<close>

lemma dropna_replicate_NaN: "dropna (replicate n NaN @ vs) = dropna vs"
  by (induction n) (simp_all add: dropna_def)

lemma dropna_Finite: "dropna (map Finite ds) = map Finite ds"
  by (induction ds) (simp_all add: dropna_def)

lemma scaled_sub_NaN:
  "map (\<lambda>(a, b). np_scale (np_sub a b) c) (zip (map Finite us) (replicate n NaN)) =
     replicate (min (length us) n) NaN"
proof (induction us arbitrary: n)
  case Nil
  show ?case by simp
next
  case (Cons u us)
  show ?case by (cases n) (simp_all add: Cons.IH)
qed

lemma scaled_sub_Finite:
  "map (\<lambda>(a, b). np_scale (np_sub a b) c) (zip (map Finite us) (map Finite vs)) =
     map Finite (map (\<lambda>(a, b). (a - b) * c) (zip us vs))"
  by (induction us vs rule: list_induct2') simp_all

lemma log_difference_finite:
  assumes "\<forall>x\<in>set xs. 0 < x"
  shows "log_difference k (map Finite xs) =
    map Finite (map (\<lambda>(a, b). (a - b) * 100) (zip (drop k (map ln xs)) (map ln xs)))"
proof -
  let ?ys = "map ln xs"
  let ?n = "length xs"
  have logs: "ts_log (map Finite xs) = map Finite ?ys"
    using assms by (simp add: ts_log_positive)
  have sh: "shift k (map Finite ?ys) =
      replicate (min k ?n) NaN @ map Finite (take (?n - k) ?ys)"
    by (simp add: shift_def take_map)
  have split: "zip (map Finite ?ys) (replicate (min k ?n) NaN @ map Finite (take (?n - k) ?ys)) =
      zip (map Finite (take (min k ?n) ?ys)) (replicate (min k ?n) NaN) @
      zip (map Finite (drop (min k ?n) ?ys)) (map Finite (take (?n - k) ?ys))"
    by (simp add: zip_append2 take_map drop_map)
  have dr: "drop (min k ?n) ?ys = drop k ?ys"
    by (cases "k \<le> ?n") (simp_all add: min_def)
  have zz: "zip (drop k ?ys) (take (?n - k) ?ys) = zip (drop k ?ys) ?ys"
  proof -
    have "zip (drop k ?ys) ?ys = take (length (drop k ?ys)) (zip (drop k ?ys) ?ys)"
      by simp
    also have "\<dots> = zip (drop k ?ys) (take (?n - k) ?ys)"
      by (simp add: take_zip)
    finally show ?thesis by simp
  qed
  have "log_difference k (map Finite xs) =
      dropna (replicate (min (length (take (min k ?n) ?ys)) (min k ?n)) NaN @
        map Finite (map (\<lambda>(a, b). (a - b) * 100)
          (zip (drop (min k ?n) ?ys) (take (?n - k) ?ys))))"
    unfolding log_difference_def Let_def logs sh split map_append
      scaled_sub_NaN scaled_sub_Finite ..
  also have "\<dots> = map Finite (map (\<lambda>(a, b). (a - b) * 100)
          (zip (drop (min k ?n) ?ys) (take (?n - k) ?ys)))"
    by (simp only: dropna_replicate_NaN dropna_Finite)
  finally show ?thesis
    by (simp only: dr zz)
qed

lemma invert_difference_diff:
  assumes "anchors \<noteq> []"
  shows "invert_difference anchors (map (\<lambda>(a, b). a - b) (zip rest (anchors @ rest))) = rest"
  using assms
proof (induction rest arbitrary: anchors)
  case Nil
  show ?case by simp
next
  case (Cons r rest)
  from Cons.prems obtain a as where as: "anchors = a # as" by (cases anchors) auto
  have "invert_difference (as @ [r]) (map (\<lambda>(a, b). a - b) (zip rest ((as @ [r]) @ rest))) = rest"
    by (rule Cons.IH) simp
  then show ?case by (simp add: as)
qed

text \<open>
  C4. On a series of positive values and a lag \<open>k \<ge> 1\<close>, the scaled log-difference is
  a series of \<open>n - k\<close> finite values, and from the \<open>k\<close> dropped values of the log series
  the inverse transforms (undo the scaling by 100, undo the difference, exponentiate)
  give back the original series without its first \<open>k\<close> entries.
\<close>

theorem log_difference_round_trip:
  assumes "\<forall>x\<in>set xs. 0 < x" and "0 < k"
  shows "\<exists>ds. log_difference k (map Finite xs) = map Finite ds \<and>
    length ds = length xs - k \<and>
    invert_log (invert_difference (take k (map ln xs)) (invert_scale 100 ds)) = drop k xs"
proof -
  let ?ys = "map ln xs"
  let ?ds = "map (\<lambda>(a, b). (a - b) * 100) (zip (drop k ?ys) ?ys)"
  have fin: "log_difference k (map Finite xs) = map Finite ?ds"
    using assms(1) by (rule log_difference_finite)
  have len: "length ?ds = length xs - k" by simp
  have unscale: "invert_scale 100 ?ds = map (\<lambda>(a, b). a - b) (zip (drop k ?ys) ?ys)"
    by (simp add: invert_scale_def split_def)
  have undiff: "invert_difference (take k ?ys) (invert_scale 100 ?ds) = drop k ?ys"
  proof (cases "xs = []")
    case True
    then show ?thesis by (simp add: invert_scale_def)
  next
    case False
    with assms(2) have ne: "take k ?ys \<noteq> []" by (cases k) auto
    have "invert_difference (take k ?ys)
        (map (\<lambda>(a, b). a - b) (zip (drop k ?ys) (take k ?ys @ drop k ?ys))) = drop k ?ys"
      using ne by (rule invert_difference_diff)
    then show ?thesis by (simp only: unscale append_take_drop_id)
  qed
  have "map exp (drop k ?ys) = drop k xs"
  proof -
    have "map exp ?ys = xs"
      using assms(1) by (induction xs) simp_all
    then have "drop k (map exp ?ys) = drop k xs" by simp
    then show ?thesis by (simp only: drop_map)
  qed
  then have "invert_log (invert_difference (take k ?ys) (invert_scale 100 ?ds)) = drop k xs"
    by (simp only: undiff invert_log_def)
  with fin len show ?thesis by blast
qed

theorem log_difference_round_trip_witness:
  "\<exists>ds. ts_log_diff (map Finite [1, exp 1, exp 3]) = map Finite ds \<and>
    length ds = 2 \<and>
    invert_log (invert_difference [0] (invert_scale 100 ds)) = [exp 1, exp 3]"
  using log_difference_round_trip[of "[1, exp 1, exp 3]" 1]
  by (simp add: ts_log_diff_def numeral_2_eq_2)

section \<open>The Kalman recursion\<close>

lemma kalman_cycle_covariance:
  assumes "0 \<le> state_covariance st"
    and "0 \<le> transition_covariance par" and "0 \<le> observation_covariance par"
  shows "0 \<le> state_covariance (kalman_cycle par st z)"
proof -
  define F H Q R where "F = transition_matrices par" and "H = observation_matrices par"
    and "Q = transition_covariance par" and "R = observation_covariance par"
  define P_pred where "P_pred = F\<^sup>2 * state_covariance st + Q"
  define S where "S = H\<^sup>2 * P_pred + R"
  define K where "K = (if S = 0 then 0 else H * P_pred / S)"
  have cov: "state_covariance (kalman_cycle par st z) = (1 - K * H) * P_pred"
    by (simp add: kalman_cycle_def Let_def K_def S_def P_pred_def F_def H_def Q_def R_def)
  have pp: "0 \<le> P_pred"
    using assms(1,2) by (simp add: P_pred_def Q_def)
  have s: "0 \<le> S"
    using pp assms(3) by (simp add: S_def R_def)
  have "0 \<le> 1 - K * H"
  proof (cases "S = 0")
    case True
    then show ?thesis by (simp add: K_def)
  next
    case False
    with s have pos: "0 < S" by simp
    have "K * H = (H\<^sup>2 * P_pred) / S"
      using False by (simp add: K_def power2_eq_square)
    also have "\<dots> = (S - R) / S" by (simp add: S_def)
    also have "\<dots> = 1 - R / S" using False by (simp add: diff_divide_distrib)
    finally have "1 - K * H = R / S" by simp
    moreover have "0 \<le> R / S" using pos assms(3) by (simp add: R_def)
    ultimately show ?thesis by simp
  qed
  with pp show ?thesis by (simp add: cov)
qed

lemma filter_from_covariance:
  assumes "0 \<le> transition_covariance par" and "0 \<le> observation_covariance par"
  shows "0 \<le> state_covariance st \<Longrightarrow>
    \<forall>s\<in>set (filter_from par st zs). 0 \<le> state_covariance s"
proof (induction zs arbitrary: st)
  case Nil
  show ?case by simp
next
  case (Cons z zs)
  have "0 \<le> state_covariance (kalman_cycle par st z)"
    using Cons.prems assms by (rule kalman_cycle_covariance)
  with Cons.IH[of "kalman_cycle par st z"] show ?case
    by (simp add: Let_def)
qed

lemma length_filter_from: "length (filter_from par st zs) = length zs"
  by (induction zs arbitrary: st) (simp_all add: Let_def)

text \<open>
  C5. With \<open>P0\<close>, \<open>Q\<close> and \<open>R\<close> not negative, the filter emits one state per observation
  and the covariance of every emitted state is not negative (for any transition and
  observation coefficient).
\<close>

theorem kalman_covariance_nonneg:
  assumes "0 \<le> initial_state_covariance par"
    and "0 \<le> transition_covariance par" and "0 \<le> observation_covariance par"
  shows "length (kalman_filter par observations) = length observations \<and>
    (\<forall>s\<in>set (kalman_filter par observations). 0 \<le> state_covariance s)"
  using filter_from_covariance[OF assms(2,3), of
      "\<lparr>state_mean = initial_state_mean par, state_covariance = initial_state_covariance par\<rparr>"
      observations] assms(1)
  by (simp add: kalman_filter_def length_filter_from)

theorem kalman_covariance_nonneg_witness:
  "length (kalman_filter
      \<lparr>transition_matrices = 1, observation_matrices = 1, transition_covariance = 0.01,
       observation_covariance = 1, initial_state_mean = 0, initial_state_covariance = 1000\<rparr>
      [10, 10, 10, 10]) = 4 \<and>
   list_all (\<lambda>s. 0 \<le> state_covariance s)
     (kalman_filter
      \<lparr>transition_matrices = 1, observation_matrices = 1, transition_covariance = 0.01,
       observation_covariance = 1, initial_state_mean = 0, initial_state_covariance = 1000\<rparr>
      [10, 10, 10, 10])"
  using kalman_covariance_nonneg[of
      "\<lparr>transition_matrices = 1, observation_matrices = 1, transition_covariance = 0.01,
       observation_covariance = 1, initial_state_mean = 0, initial_state_covariance = 1000\<rparr>"
      "[10, 10, 10, 10]"]
  by (simp add: list_all_iff)

text \<open>
  C10. The notebook fixes \<open>P0 = 1\<close>, \<open>Q = 0.01\<close>, \<open>R = 1\<close> and takes the first observation
  as the initial mean, so on a non-empty column the first state mean of the trajectory
  is the first observation: the first innovation is zero. An empty column fails at
  \<open>values[0]\<close>.
\<close>

theorem first_state_mean_is_first_observation:
  "kf (z0 # zs) =
     Inr \<lparr>transition_matrices = 1, observation_matrices = 1, transition_covariance = 0.01,
          observation_covariance = 1, initial_state_mean = z0, initial_state_covariance = 1\<rparr> \<and>
   (\<exists>ms. state_means (z0 # zs) = Inr (z0 # ms) \<and> length ms = length zs) \<and>
   state_means [] = Inl IndexError"
  by (simp add: kf_def state_means_def kalman_filter_def kalman_cycle_def Let_def
      length_filter_from)

theorem first_state_mean_is_first_observation_witness:
  "\<exists>ms. state_means [250, 260, 255] = Inr (250 # ms) \<and> length ms = 2"
  using first_state_mean_is_first_observation[of 250 "[260, 255]"]
  by (simp add: numeral_2_eq_2)

end
